theory Spec2Isabelle
  imports Main "HOL-Library.Multiset"
begin

section \<open>Values shared by the components of KairuCommunityHub.jsx\<close>

text \<open>
  The file is one React module: two pure utilities (\<open>formatTimestamp\<close>,
  \<open>formatTextContent\<close>), the hooks \<open>useFirebase\<close> and \<open>usePosts\<close>, and the
  components \<open>PostItem\<close> and \<open>NewPost\<close> with their event handlers. Strings are
  lists of \<open>char\<close>; a JavaScript string is modelled by its code units, restricted to
  the 8-bit range of \<open>char\<close>.

  \<open>jsval\<close> is what a JavaScript function hands back to its caller. The event
  handlers are \<open>async\<close> arrow functions without a \<open>return\<close> of a value, so the
  promise they give resolves to \<open>undefined\<close>.
\<close>

datatype jsval = Undefined | JBool bool | JStr string

subsection \<open>Dates and timestamps\<close>

text \<open>
  A JavaScript \<open>Date\<close> holds a time value in milliseconds since the epoch, or NaN
  (an invalid date, for which \<open>isNaN(date)\<close> is true).
\<close>

datatype jsdate = InvalidDate | Date int

text \<open>
  A Firestore \<open>Timestamp\<close> object, by the two members the module reads: the field
  \<open>seconds\<close> (line 213) and the method \<open>toDate()\<close> (line 19).
\<close>

record fs_timestamp =
  seconds :: int
  toDate :: jsdate

text \<open>
  The values a \<open>timestamp\<close> field or argument holds: missing (\<open>null\<close>,
  \<open>undefined\<close>), a raw number (integer-valued, or NaN), a raw string, or a Firestore
  \<open>Timestamp\<close>. The comment at line 16 names exactly these.
\<close>

datatype tsval = TNull | TUndefined | TNum int | TNaN | TStr string | TStamp fs_timestamp

text \<open>
  What the module takes from its JavaScript environment: the clock (\<open>new Date()\<close>),
  the parser behind \<open>new Date(string)\<close>, and \<open>toLocaleDateString('en-US', ...)\<close>
  of a valid date. They are parameters of the model.
\<close>

record js_env =
  now :: int
  parseDate :: "string \<Rightarrow> jsdate"
  toLocaleDateString :: "int \<Rightarrow> string"

text \<open>\<open>!timestamp\<close>: the values JavaScript treats as false.\<close>

fun falsy :: "tsval \<Rightarrow> bool" where
  "falsy TNull = True"
| "falsy TUndefined = True"
| "falsy (TNum n) = (n = 0)"
| "falsy TNaN = True"
| "falsy (TStr s) = (s = [])"
| "falsy (TStamp t) = False"

text \<open>
  Lines 17 to 23: the variable \<open>date\<close>. A \<open>Timestamp\<close> object has a \<open>toDate\<close>
  method, which is called; any other value goes to \<open>new Date(timestamp)\<close>. A number
  is a time value when it lies within 8.64e15 milliseconds of the epoch; a string is
  parsed; \<open>new Date(null)\<close> is the epoch, and \<open>undefined\<close> and NaN give an
  invalid date.
\<close>

fun dateOf :: "js_env \<Rightarrow> tsval \<Rightarrow> jsdate" where
  "dateOf env (TStamp t) = toDate t"
| "dateOf env TNull = Date 0"
| "dateOf env TUndefined = InvalidDate"
| "dateOf env (TNum n) = (if \<bar>n\<bar> \<le> 8640000000000000 then Date n else InvalidDate)"
| "dateOf env TNaN = InvalidDate"
| "dateOf env (TStr s) = parseDate env s"

text \<open>A template literal prints an integer in decimal.\<close>

definition digitChar :: "nat \<Rightarrow> char" where
  "digitChar n = ''0123456789'' ! n"

fun showNat :: "nat \<Rightarrow> string" where
  "showNat n = (if n < 10 then [digitChar n] else showNat (n div 10) @ [digitChar (n mod 10)])"

declare showNat.simps [simp del]

definition numberToString :: "int \<Rightarrow> string" where
  "numberToString i = (if i < 0 then CHR ''-'' # showNat (nat (- i)) else showNat (nat i))"

text \<open>Lines 13 to 38. \<open>Math.floor\<close> of a quotient of integers is \<open>div\<close>.\<close>

definition formatTimestamp :: "js_env \<Rightarrow> tsval \<Rightarrow> string" where
  "formatTimestamp env timestamp =
     (if falsy timestamp then ''Just now''
      else
        (case dateOf env timestamp of
           InvalidDate \<Rightarrow> ''Unknown time''
         | Date date \<Rightarrow>
             (let diffInMinutes = (now env - date) div (1000 * 60) in
              if diffInMinutes < 1 then ''Just now''
              else if diffInMinutes < 60 then
                numberToString diffInMinutes @ '' minute''
                  @ (if diffInMinutes \<noteq> 1 then ''s'' else '''') @ '' ago''
              else if diffInMinutes < 1440 then
                numberToString (diffInMinutes div 60) @ '' hour''
                  @ (if diffInMinutes div 60 \<noteq> 1 then ''s'' else '''') @ '' ago''
              else toLocaleDateString env date)))"

section \<open>Mention highlighting: \<open>formatTextContent\<close>\<close>

text \<open>The character class \<open>[a-zA-Z0-9]\<close> of the regular expression at line 45.\<close>

definition isAlnum :: "char \<Rightarrow> bool" where
  "isAlnum c =
     (let n = (of_char c :: nat)
      in (97 \<le> n \<and> n \<le> 122) \<or> (65 \<le> n \<and> n \<le> 90) \<or> (48 \<le> n \<and> n \<le> 57))"

definition notAt :: "char \<Rightarrow> bool" where
  "notAt c = (c \<noteq> CHR ''@'')"

text \<open>\<open>u.startsWith(m)\<close>: \<open>m\<close> is an initial segment of \<open>u\<close>.\<close>

definition startsWith :: "string \<Rightarrow> string \<Rightarrow> bool" where
  "startsWith u m = (take (length m) u = m)"

text \<open>
  A rendered \<open>span\<close> element: its key (the index of the match), its class name
  (absent on a plain text segment) and its text (\<open>match[0]\<close>).
\<close>

record span =
  key :: nat
  className :: "string option"
  children :: string

text \<open>Lines 50 to 53: the span of an @mention whose captured name is \<open>mentionedId\<close>.\<close>

definition mentionSpan :: "string list \<Rightarrow> nat \<Rightarrow> string \<Rightarrow> span" where
  "mentionSpan allUsers index mentionedId =
     (let isKnownUser = list_ex (\<lambda>u. startsWith u mentionedId) allUsers;
          style = (if isKnownUser then ''text-blue-500 font-semibold'' else ''text-gray-400'')
      in \<lparr>key = index, className = Some style, children = CHR ''@'' # mentionedId\<rparr>)"

text \<open>Line 55: the span of a regular text segment.\<close>

definition textSpan :: "nat \<Rightarrow> string \<Rightarrow> span" where
  "textSpan index segment = \<lparr>key = index, className = None, children = segment\<rparr>"

text \<open>
  The loop of lines 48 to 57 over the global regular expression
  \<open>(@([a-zA-Z0-9]+))|([^@]+)\<close>, from index \<open>i\<close> on the rest of the text. At an
  \<open>@\<close> followed by at least one alphanumeric character the first alternative
  matches the longest such run; at any other character the second alternative
  matches the longest run free of \<open>@\<close>; an \<open>@\<close> followed by no alphanumeric
  character matches neither, and the search goes on one position later. The loop ends
  when \<open>exec\<close> finds no further match.
\<close>

function regexLoop :: "string list \<Rightarrow> nat \<Rightarrow> string \<Rightarrow> span list" where
  "regexLoop allUsers i [] = []"
| "regexLoop allUsers i (c # cs) =
     (if c = CHR ''@'' then
        (if takeWhile isAlnum cs = [] then regexLoop allUsers (Suc i) cs
         else mentionSpan allUsers i (takeWhile isAlnum cs)
                # regexLoop allUsers (Suc i + length (takeWhile isAlnum cs))
                    (dropWhile isAlnum cs))
      else textSpan i (c # takeWhile notAt cs)
             # regexLoop allUsers (Suc i + length (takeWhile notAt cs)) (dropWhile notAt cs))"
  by pat_completeness auto
termination
  by (relation "measure (\<lambda>(allUsers, i, s). length s)")
     (auto simp: less_Suc_eq_le length_dropWhile_le)

text \<open>Lines 41 to 59; \<open>None\<close> is the \<open>null\<close> returned for an empty text.\<close>

definition formatTextContent :: "string \<Rightarrow> string list \<Rightarrow> span list option" where
  "formatTextContent text allUsers =
     (if text = [] then None else Some (regexLoop allUsers 0 text))"

section \<open>Posts, comments and the posts collection\<close>

text \<open>
  A stored comment, by the fields the module reads (lines 140, 213 and 286 to 293) and
  \<open>handleAddComment\<close> sets (lines 195 to 199): author, text and timestamp. It has
  no other field.
\<close>

record comment =
  c_userId :: string
  c_text :: string
  c_timestamp :: tsval

text \<open>
  The data of a post document as \<open>handleSubmit\<close> writes it (lines 349 to 355). The
  readers guard against a missing \<open>likes\<close> or \<open>comments\<close> field
  (\<open>post.likes || []\<close>, \<open>post.comments || []\<close>), so both are optional.
\<close>

record doc_data =
  userId :: string
  content :: string
  timestamp :: tsval
  likes :: "string list option"
  comments :: "comment list option"

text \<open>A post of the \<open>posts\<close> state: \<open>{ id: doc.id, ...doc.data() }\<close> (lines 129 to 132).\<close>

record post = doc_data +
  id' :: string

definition fetchedPost :: "string \<times> doc_data \<Rightarrow> post" where
  "fetchedPost doc =
     (case doc of (i, d) \<Rightarrow>
        \<lparr>userId = userId d, content = content d, timestamp = timestamp d,
         likes = likes d, comments = comments d, id' = i\<rparr>)"

definition fetchedPosts :: "(string \<times> doc_data) list \<Rightarrow> post list" where
  "fetchedPosts docs = map fetchedPost docs"

text \<open>\<open>post.likes || []\<close> and \<open>post.comments || []\<close>.\<close>

definition likesOf :: "'a doc_data_scheme \<Rightarrow> string list" where
  "likesOf p = (case likes p of None \<Rightarrow> [] | Some l \<Rightarrow> l)"

definition commentsOf :: "'a doc_data_scheme \<Rightarrow> comment list" where
  "commentsOf p = (case comments p of None \<Rightarrow> [] | Some cs \<Rightarrow> cs)"

subsection \<open>The backend, by the contract of the calls the module makes\<close>

text \<open>
  The collection \<open>artifacts/{appId}/public/data/posts\<close> maps document ids to document
  data. The store itself is the hosted database, outside the module; the calls the
  handlers make are modelled by the contract of the SDK:
  \<^item> \<open>updateDoc\<close> fails on a document that does not exist and otherwise replaces the
    fields given;
  \<^item> \<open>arrayUnion\<close> adds an element to an array field unless an equal element is
    already there;
  \<^item> \<open>serverTimestamp()\<close> is a placeholder for the time the server assigns. It is
    accepted as a field of the document written, where the server puts its time (a
    parameter of the model), and refused by the SDK's check of the arguments inside
    the elements of \<open>arrayUnion\<close>;
  \<^item> \<open>addDoc\<close> stores the data under an id the backend generates, or is refused;
    which of the two, and the id, is a parameter of the model.

  An \<open>updateDoc\<close> that fails for another reason than these (the network, the
  access rules) is not modelled.
\<close>

type_synonym collection = "string \<rightharpoonup> doc_data"

datatype fs_error = NotFound | InvalidArgument | Unavailable

definition updateDoc ::
  "collection \<Rightarrow> string \<Rightarrow> (doc_data \<Rightarrow> doc_data) \<Rightarrow> fs_error + collection" where
  "updateDoc col docId change =
     (case col docId of
        None \<Rightarrow> Inl NotFound
      | Some d \<Rightarrow> Inr (col(docId \<mapsto> change d)))"

definition arrayUnion :: "'a list \<Rightarrow> 'a \<Rightarrow> 'a list" where
  "arrayUnion xs x = (if x \<in> set xs then xs else xs @ [x])"

text \<open>
  A timestamp as the module writes it: the placeholder, or a value. The comment
  object of lines 195 to 199 is an argument of \<open>arrayUnion\<close>; the SDK checks it
  before anything is sent.
\<close>

datatype written_ts = ServerTimestamp | Literal tsval

record comment_arg =
  a_userId :: string
  a_text :: string
  a_timestamp :: written_ts

definition arrayUnionArg :: "comment_arg \<Rightarrow> fs_error + comment" where
  "arrayUnionArg a =
     (case a_timestamp a of
        ServerTimestamp \<Rightarrow> Inl InvalidArgument
      | Literal t \<Rightarrow> Inr \<lparr>c_userId = a_userId a, c_text = a_text a, c_timestamp = t\<rparr>)"

text \<open>
  \<open>addDoc\<close>: \<open>outcome\<close> is the backend's answer, a refusal or the generated id.
\<close>

definition addDoc :: "collection \<Rightarrow> fs_error + string \<Rightarrow> doc_data \<Rightarrow> fs_error + collection" where
  "addDoc col outcome d =
     (case outcome of
        Inl e \<Rightarrow> Inl e
      | Inr newId \<Rightarrow> Inr (col(newId \<mapsto> d)))"

text \<open>
  What the handlers can change: the collection, and the browser console, to which the
  \<open>catch\<close> blocks report with \<open>console.error\<close>.
\<close>

record world =
  postsCol :: collection
  consoleErrors :: "string list"

section \<open>\<open>useFirebase\<close>: the identity of the signed-in user\<close>

text \<open>
  Line 90: \<open>user?.uid || null\<close>. The argument is the uid of the signed-in user, if
  there is one; an empty uid is stored as \<open>null\<close>.
\<close>

definition currentId :: "string option \<Rightarrow> string option" where
  "currentId uid = (case uid of None \<Rightarrow> None | Some u \<Rightarrow> if u = [] then None else Some u)"

section \<open>\<open>PostItem\<close>\<close>

text \<open>
  The write of line 180, \<open>{ likes: newLikes }\<close>, and the union of a comment into the
  \<open>comments\<close> field, as changes of the document's data.
\<close>

definition likesUpdate :: "string list \<Rightarrow> doc_data \<Rightarrow> doc_data" where
  "likesUpdate l d = d\<lparr>likes := Some l\<rparr>"

definition commentsUnion :: "comment \<Rightarrow> doc_data \<Rightarrow> doc_data" where
  "commentsUnion newComment d = d\<lparr>comments := Some (arrayUnion (commentsOf d) newComment)\<rparr>"

text \<open>
  Line 201: \<open>updateDoc(postRef, { comments: arrayUnion(newComment) })\<close>. The check of
  the argument comes first.
\<close>

definition updateDocArrayUnion ::
  "collection \<Rightarrow> string \<Rightarrow> comment_arg \<Rightarrow> fs_error + collection" where
  "updateDocArrayUnion col docId a =
     (case arrayUnionArg a of
        Inl e \<Rightarrow> Inl e
      | Inr c \<Rightarrow> updateDoc col docId (commentsUnion c))"

text \<open>Lines 169 to 178: the new like list, from the post as rendered.\<close>

definition newLikes :: "string list \<Rightarrow> string \<Rightarrow> string list" where
  "newLikes currentLikes uid =
     (if uid \<in> set currentLikes then filter (\<lambda>i. i \<noteq> uid) currentLikes
      else currentLikes @ [uid])"

text \<open>
  Lines 164 to 186. \<open>db\<close> tells whether the database handle is set; \<open>userId'\<close> is the
  component's \<open>userId\<close>, \<open>null\<close> or a string, and \<open>!userId\<close>
  holds for \<open>null\<close> and for the empty string. \<open>post\<close> is the prop the handler
  closes over: the post as it was rendered, which need not be the stored document.
\<close>

definition handleLike :: "bool \<Rightarrow> string option \<Rightarrow> post \<Rightarrow> world \<Rightarrow> jsval \<times> world" where
  "handleLike db userId' post w =
     (case userId' of
        None \<Rightarrow> (Undefined, w)
      | Some uid \<Rightarrow>
          if \<not> db \<or> uid = [] then (Undefined, w)
          else
            (case updateDoc (postsCol w) (id' post) (likesUpdate (newLikes (likesOf post) uid)) of
               Inl e \<Rightarrow> (Undefined, w\<lparr>consoleErrors := consoleErrors w @ [''Error updating likes:'']\<rparr>)
             | Inr col \<Rightarrow> (Undefined, w\<lparr>postsCol := col\<rparr>)))"

text \<open>
  \<open>String.prototype.trim\<close> strips the white space and the line terminators of
  ECMAScript. Within the 8-bit range these are tab, line feed, vertical tab, form
  feed, carriage return, space and the no-break space U+00A0.
\<close>

definition isSpace :: "char \<Rightarrow> bool" where
  "isSpace c = (let n = (of_char c :: nat) in (9 \<le> n \<and> n \<le> 13) \<or> n = 32 \<or> n = 160)"

definition trim :: "string \<Rightarrow> string" where
  "trim s = rev (dropWhile isSpace (rev (dropWhile isSpace s)))"

text \<open>The component state \<open>handleAddComment\<close> reads and sets.\<close>

record post_item_state =
  commentText :: string
  isExpanded :: bool

text \<open>
  Lines 188 to 210. The new comment carries \<open>serverTimestamp()\<close> as its timestamp and
  is handed to \<open>arrayUnion\<close>.
\<close>

definition handleAddComment ::
  "bool \<Rightarrow> string option \<Rightarrow> post \<Rightarrow> post_item_state \<Rightarrow> world
     \<Rightarrow> jsval \<times> post_item_state \<times> world" where
  "handleAddComment db userId' post st w =
     (case userId' of
        None \<Rightarrow> (Undefined, st, w)
      | Some uid \<Rightarrow>
          if \<not> db \<or> uid = [] \<or> trim (commentText st) = [] then (Undefined, st, w)
          else
            (let newComment =
                   \<lparr>a_userId = uid, a_text = trim (commentText st),
                    a_timestamp = ServerTimestamp\<rparr>
             in case updateDocArrayUnion (postsCol w) (id' post) newComment of
                  Inl e \<Rightarrow>
                    (Undefined, st,
                     w\<lparr>consoleErrors := consoleErrors w @ [''Error adding comment:'']\<rparr>)
                | Inr col \<Rightarrow>
                    (Undefined, st\<lparr>commentText := [], isExpanded := True\<rparr>,
                     w\<lparr>postsCol := col\<rparr>)))"

text \<open>Line 212: \<open>post.likes?.includes(userId)\<close>, as the condition it is used for.\<close>

definition userLiked :: "post \<Rightarrow> string option \<Rightarrow> bool" where
  "userLiked post userId' =
     (case likes post of
        None \<Rightarrow> False
      | Some l \<Rightarrow> (case userId' of None \<Rightarrow> False | Some uid \<Rightarrow> uid \<in> set l))"

section \<open>\<open>NewPost\<close>\<close>

record new_post_state =
  contentText :: string
  isPosting :: bool

text \<open>
  Lines 342 to 363. \<open>outcome\<close> is the answer of \<open>addDoc\<close> and \<open>serverTime\<close> the
  time the server puts for \<open>serverTimestamp()\<close>. The result of \<open>addDoc\<close> is not
  bound to a name. \<open>isPosting\<close> is set before the \<open>try\<close> and cleared in the
  \<open>finally\<close>; when \<open>addDoc\<close> is refused the \<open>catch\<close> logs and the text stays.
\<close>

definition handleSubmit ::
  "bool \<Rightarrow> string option \<Rightarrow> fs_error + string \<Rightarrow> tsval \<Rightarrow> new_post_state \<Rightarrow> world
     \<Rightarrow> jsval \<times> new_post_state \<times> world" where
  "handleSubmit db userId' outcome serverTime st w =
     (case userId' of
        None \<Rightarrow> (Undefined, st, w)
      | Some uid \<Rightarrow>
          if trim (contentText st) = [] \<or> \<not> db \<or> uid = [] then (Undefined, st, w)
          else
            (case addDoc (postsCol w) outcome
                    \<lparr>userId = uid, content = trim (contentText st), timestamp = serverTime,
                     likes = Some [], comments = Some []\<rparr> of
               Inl e \<Rightarrow>
                 (Undefined, st\<lparr>isPosting := False\<rparr>,
                  w\<lparr>consoleErrors := consoleErrors w @ [''Error creating post:'']\<rparr>)
             | Inr col \<Rightarrow>
                 (Undefined, st\<lparr>contentText := [], isPosting := False\<rparr>,
                  w\<lparr>postsCol := col\<rparr>)))"

section \<open>Sequences of clicks on the like button\<close>

text \<open>
  The like button is never disabled, and each click runs \<open>handleLike\<close> with the post
  of the render the click was made on. A sequence of clicks of one user is therefore
  given by the list of those renders, in order.
\<close>

fun handleLikeCalls :: "bool \<Rightarrow> string option \<Rightarrow> post list \<Rightarrow> world \<Rightarrow> world" where
  "handleLikeCalls db userId' [] w = w"
| "handleLikeCalls db userId' (p # ps) w =
     handleLikeCalls db userId' ps (snd (handleLike db userId' p w))"

text \<open>
  The post of document \<open>pid\<close> as the snapshot listener delivers it from the current
  collection (lines 129 to 133).
\<close>

definition currentPost :: "world \<Rightarrow> string \<Rightarrow> post option" where
  "currentPost w pid = map_option (\<lambda>d. fetchedPost (pid, d)) (postsCol w pid)"

text \<open>
  The clicks for which the component was re-rendered in between: every render in the
  list is the post of document \<open>pid\<close> as stored when its click is made.
\<close>

fun freshRenders :: "bool \<Rightarrow> string option \<Rightarrow> string \<Rightarrow> post list \<Rightarrow> world \<Rightarrow> bool" where
  "freshRenders db userId' pid [] w = True"
| "freshRenders db userId' pid (p # ps) w =
     (currentPost w pid = Some p \<and> freshRenders db userId' pid ps (snd (handleLike db userId' p w)))"

section \<open>Sample values\<close>

text \<open>Concrete inputs on which the theorems below are evaluated.\<close>

definition noParse :: "string \<Rightarrow> jsdate" where
  "noParse s = InvalidDate"

definition fixedDate :: "int \<Rightarrow> string" where
  "fixedDate d = ''Nov 14, 2023''"

definition sampleEnv :: js_env where
  "sampleEnv = \<lparr>now = 1700000000000, parseDate = noParse, toLocaleDateString = fixedDate\<rparr>"

definition sampleTime :: "int \<Rightarrow> tsval" where
  "sampleTime s = TStamp \<lparr>seconds = s, toDate = Date (s * 1000)\<rparr>"

definition heronDoc :: doc_data where
  "heronDoc =
     \<lparr>userId = ''alice'', content = ''Saw a heron'', timestamp = sampleTime 100,
      likes = Some [], comments = Some []\<rparr>"

definition heronWorld :: world where
  "heronWorld = \<lparr>postsCol = [''p1'' \<mapsto> heronDoc], consoleErrors = []\<rparr>"

definition emptyWorld :: world where
  "emptyWorld = \<lparr>postsCol = Map.empty, consoleErrors = []\<rparr>"

text \<open>The heron post as rendered before any like, and after \<open>bob\<close> has liked it.\<close>

definition heronPost :: post where
  "heronPost = fetchedPost (''p1'', heronDoc)"

definition heronLikedPost :: post where
  "heronLikedPost = fetchedPost (''p1'', heronDoc\<lparr>likes := Some [''bob'']\<rparr>)"

text \<open>The collection after \<open>bob\<close> has liked the heron post.\<close>

definition likedWorld :: world where
  "likedWorld =
     \<lparr>postsCol = [''p1'' \<mapsto> heronDoc\<lparr>likes := Some [''bob'']\<rparr>], consoleErrors = []\<rparr>"

text \<open>The comment form of \<open>carol\<close>, filled and blank.\<close>

definition carolForm :: post_item_state where
  "carolForm = \<lparr>commentText = ''hi @bob'', isExpanded = False\<rparr>"

definition blankForm :: post_item_state where
  "blankForm = \<lparr>commentText = ''   '', isExpanded = False\<rparr>"

text \<open>A post \<open>p9\<close> that the sample collections do not hold.\<close>

definition p9Post :: post where
  "p9Post = fetchedPost (''p9'', heronDoc)"

text \<open>A comment form holding one no-break space.\<close>

definition nbspForm :: post_item_state where
  "nbspForm = \<lparr>commentText = [CHR 0xA0], isExpanded = False\<rparr>"

section \<open>Properties of \<open>formatTimestamp\<close>\<close>

lemma numberToString_one: "numberToString 1 = ''1''"
  by (simp add: numberToString_def showNat.simps digitChar_def)

lemma div_less_numeral:
  fixes a b c :: int
  assumes "0 < b"
  shows "(a div b < c) = (a < c * b)"
proof -
  have split: "a = (a div b) * b + a mod b" by simp
  have lo: "0 \<le> a mod b" and hi: "a mod b < b" using assms by simp_all
  show ?thesis
  proof
    assume "a div b < c"
    then have "a div b + 1 \<le> c" by linarith
    then have "(a div b + 1) * b \<le> c * b" using assms by (simp add: mult_right_mono)
    then have "(a div b) * b + b \<le> c * b" by (simp add: distrib_right)
    with split hi show "a < c * b" by linarith
  next
    assume lt: "a < c * b"
    show "a div b < c"
    proof (rule ccontr)
      assume "\<not> a div b < c"
      then have "c \<le> a div b" by linarith
      then have "c * b \<le> (a div b) * b" using assms by (simp add: mult_right_mono)
      with split lo lt show False by linarith
    qed
  qed
qed

lemma minutes_of_age:
  fixes a :: int
  shows "(a div 60000 < 1) = (a < 60000)"
    and "(a div 60000 < 60) = (a < 3600000)"
    and "(a div 60000 < 1440) = (a < 86400000)"
    and "(a div 60000 < 2) = (a < 120000)"
    and "(a div 3600000 < 2) = (a < 7200000)"
    and "a div 60000 div 60 = a div 3600000"
  by (simp_all add: div_less_numeral zdiv_zmult2_eq[symmetric])

text \<open>
  Claim C10, as amended. \<open>formatTimestamp\<close> returns a string for every timestamp
  value: "Just now" when the value is falsy (\<open>null\<close>, \<open>undefined\<close>, the number 0,
  NaN or the empty string) or when its date lies less than one minute before the
  current time, which includes every later date; "Unknown time" when the value is
  not falsy and its date is invalid; "1 minute ago" from one minute, "N minutes ago"
  from two minutes up to one hour; "1 hour ago" from one hour, "N hours ago" from two
  hours up to 24 hours; and the locale's calendar date from 24 hours on. The age is
  given in milliseconds.
\<close>

theorem formatTimestamp_cases:
  "formatTimestamp env ts =
     (if falsy ts then ''Just now''
      else
        (case dateOf env ts of
           InvalidDate \<Rightarrow> ''Unknown time''
         | Date d \<Rightarrow>
             (if now env - d < 60000 then ''Just now''
              else if now env - d < 120000 then ''1 minute ago''
              else if now env - d < 3600000 then
                numberToString ((now env - d) div 60000) @ '' minutes ago''
              else if now env - d < 7200000 then ''1 hour ago''
              else if now env - d < 86400000 then
                numberToString ((now env - d) div 3600000) @ '' hours ago''
              else toLocaleDateString env d)))"
proof (cases "falsy ts")
  case True
  then show ?thesis by (simp add: formatTimestamp_def)
next
  case False
  show ?thesis
  proof (cases "dateOf env ts")
    case InvalidDate
    with False show ?thesis by (simp add: formatTimestamp_def)
  next
    case (Date d)
    define a where "a = now env - d"
    define m where "m = a div 60000"
    define h where "h = a div 3600000"
    have m_lt: "(m < 1) = (a < 60000)" "(m < 2) = (a < 120000)" "(m < 60) = (a < 3600000)"
      "(m < 1440) = (a < 86400000)"
      and h_lt: "(h < 2) = (a < 7200000)" and h_eq: "m div 60 = h"
      unfolding m_def h_def by (simp_all only: minutes_of_age)
    have fmt: "formatTimestamp env ts =
      (if m < 1 then ''Just now''
       else if m < 60 then
         numberToString m @ '' minute'' @ (if m \<noteq> 1 then ''s'' else '''') @ '' ago''
       else if m < 1440 then
         numberToString h @ '' hour'' @ (if h \<noteq> 1 then ''s'' else '''') @ '' ago''
       else toLocaleDateString env d)"
      using False Date
      by (simp add: formatTimestamp_def Let_def a_def m_def h_def minutes_of_age(6))
    have by_age: "formatTimestamp env ts =
      (if a < 60000 then ''Just now''
       else if a < 120000 then ''1 minute ago''
       else if a < 3600000 then numberToString m @ '' minutes ago''
       else if a < 7200000 then ''1 hour ago''
       else if a < 86400000 then numberToString h @ '' hours ago''
       else toLocaleDateString env d)"
    proof -
      consider "a < 60000" | "60000 \<le> a" "a < 120000" | "120000 \<le> a" "a < 3600000"
        | "3600000 \<le> a" "a < 7200000" | "7200000 \<le> a" "a < 86400000" | "86400000 \<le> a"
        by linarith
      then show ?thesis
      proof cases
        case 1
        then have "m < 1" using m_lt by simp
        with 1 show ?thesis by (simp add: fmt)
      next
        case 2
        then have "\<not> m < 1" "m < 2" using m_lt by simp_all
        then have "m = 1" by linarith
        with 2 show ?thesis by (simp add: fmt numberToString_one)
      next
        case 3
        then have "\<not> m < 2" "m < 60" using m_lt by simp_all
        then have "\<not> m < 1" "m \<noteq> 1" "m < 60" by linarith+
        with 3 show ?thesis by (simp add: fmt)
      next
        case 4
        then have "\<not> m < 60" "m < 1440" "h < 2" using m_lt h_lt by simp_all
        moreover from this have "1 \<le> h" using h_eq by linarith
        ultimately have "\<not> m < 1" "\<not> m < 60" "m < 1440" "h = 1" by linarith+
        with 4 show ?thesis by (simp add: fmt numberToString_one)
      next
        case 5
        then have "\<not> m < 60" "m < 1440" "\<not> h < 2" using m_lt h_lt by simp_all
        then have "\<not> m < 1" "\<not> m < 60" "m < 1440" "h \<noteq> 1" by linarith+
        with 5 show ?thesis by (simp add: fmt)
      next
        case 6
        then have "\<not> m < 1440" using m_lt by simp
        then have "\<not> m < 1" "\<not> m < 60" "\<not> m < 1440" by linarith+
        with 6 show ?thesis by (simp add: fmt)
      qed
    qed
    show ?thesis using False Date by_age
      by (simp add: a_def m_def h_def)
  qed
qed

text \<open>
  Claim C10 as stated fails on falsy values that are not \<open>null\<close> or \<open>undefined\<close>.
  NaN has no valid date, yet the result is "Just now" and not "Unknown time"; the
  number 0 is the valid date of the epoch, more than 24 hours before the sample
  clock, yet the result is "Just now" and not the calendar date.
\<close>

theorem formatTimestamp_falsy_counterexample:
  "dateOf sampleEnv TNaN = InvalidDate
   \<and> formatTimestamp sampleEnv TNaN = ''Just now''
   \<and> dateOf sampleEnv (TNum 0) = Date 0
   \<and> 86400000 \<le> now sampleEnv - 0
   \<and> formatTimestamp sampleEnv (TNum 0) = ''Just now''
   \<and> toLocaleDateString sampleEnv 0 = ''Nov 14, 2023''"
  by (simp add: formatTimestamp_def sampleEnv_def fixedDate_def)

section \<open>Properties of \<open>formatTextContent\<close>\<close>

lemma startsWith_iff: "startsWith u m = (\<exists>r. u = m @ r)"
  unfolding startsWith_def
proof
  assume "take (length m) u = m"
  then have "u = m @ drop (length m) u" by (metis append_take_drop_id)
  then show "\<exists>r. u = m @ r" ..
next
  assume "\<exists>r. u = m @ r"
  then show "take (length m) u = m" by auto
qed


lemma mentionSpan_class:
  "(className (mentionSpan allUsers j m) = Some ''text-blue-500 font-semibold'') =
     list_ex (\<lambda>u. startsWith u m) allUsers"
  by (simp add: mentionSpan_def Let_def)

lemma at_not_alnum: "\<not> isAlnum CHR ''@''"
  by code_simp

lemma at_not_notAt: "\<not> notAt CHR ''@''"
  by (simp add: notAt_def)

lemma takeWhile_stop: "\<not> P y \<Longrightarrow> takeWhile P (xs @ y # ys) = takeWhile P xs"
  by (induction xs) auto

lemma dropWhile_stop: "\<not> P y \<Longrightarrow> dropWhile P (xs @ y # ys) = dropWhile P xs @ y # ys"
  by (induction xs) auto

lemma length_take_drop_While: "length (takeWhile P xs) + length (dropWhile P xs) = length xs"
  by (induction xs) auto

lemma regexLoop_reaches:
  "j = i + length pre \<Longrightarrow>
     set (regexLoop allUsers j (CHR ''@'' # s)) \<subseteq> set (regexLoop allUsers i (pre @ CHR ''@'' # s))"
proof (induction "length pre" arbitrary: pre i rule: less_induct)
  case less
  show ?case
  proof (cases pre)
    case Nil
    with less.prems show ?thesis by simp
  next
    case (Cons c cs)
    show ?thesis
    proof (cases "c = CHR ''@''")
      case True
      note at = True
      have tw: "takeWhile isAlnum (cs @ CHR ''@'' # s) = takeWhile isAlnum cs"
        and dw: "dropWhile isAlnum (cs @ CHR ''@'' # s) = dropWhile isAlnum cs @ CHR ''@'' # s"
        using at_not_alnum by (rule takeWhile_stop, rule dropWhile_stop)
      show ?thesis
      proof (cases "takeWhile isAlnum cs = []")
        case True
        have "set (regexLoop allUsers j (CHR ''@'' # s))
            \<subseteq> set (regexLoop allUsers (Suc i) (cs @ CHR ''@'' # s))"
          using less.prems Cons by (intro less.hyps) simp_all
        moreover have "regexLoop allUsers i (pre @ CHR ''@'' # s)
            = regexLoop allUsers (Suc i) (cs @ CHR ''@'' # s)"
          using Cons at True by (simp add: tw)
        ultimately show ?thesis by simp
      next
        case False
        let ?m = "takeWhile isAlnum cs"
        let ?rest = "dropWhile isAlnum cs"
        have len: "length ?m + length ?rest = length cs" by (rule length_take_drop_While)
        have "set (regexLoop allUsers j (CHR ''@'' # s))
            \<subseteq> set (regexLoop allUsers (Suc i + length ?m) (?rest @ CHR ''@'' # s))"
          using less.prems Cons len by (intro less.hyps) simp_all
        moreover have "regexLoop allUsers i (pre @ CHR ''@'' # s)
            = mentionSpan allUsers i ?m
                # regexLoop allUsers (Suc i + length ?m) (?rest @ CHR ''@'' # s)"
          using Cons at False by (simp add: tw dw)
        ultimately show ?thesis by auto
      qed
    next
      case False
      have tw: "takeWhile notAt (cs @ CHR ''@'' # s) = takeWhile notAt cs"
        and dw: "dropWhile notAt (cs @ CHR ''@'' # s) = dropWhile notAt cs @ CHR ''@'' # s"
        using at_not_notAt by (rule takeWhile_stop, rule dropWhile_stop)
      let ?t = "takeWhile notAt cs"
      let ?rest = "dropWhile notAt cs"
      have len: "length ?t + length ?rest = length cs" by (rule length_take_drop_While)
      have "set (regexLoop allUsers j (CHR ''@'' # s))
          \<subseteq> set (regexLoop allUsers (Suc i + length ?t) (?rest @ CHR ''@'' # s))"
        using less.prems Cons len by (intro less.hyps) simp_all
      moreover have "regexLoop allUsers i (pre @ CHR ''@'' # s)
          = textSpan i (c # ?t)
              # regexLoop allUsers (Suc i + length ?t) (?rest @ CHR ''@'' # s)"
        using Cons False by (simp add: tw dw)
      ultimately show ?thesis by auto
    qed
  qed
qed

lemma regexLoop_mention:
  assumes "takeWhile isAlnum s \<noteq> []"
  shows "mentionSpan allUsers (length pre) (takeWhile isAlnum s)
           \<in> set (regexLoop allUsers 0 (pre @ CHR ''@'' # s))"
proof -
  have "mentionSpan allUsers (length pre) (takeWhile isAlnum s)
      \<in> set (regexLoop allUsers (length pre) (CHR ''@'' # s))"
    using assms by simp
  moreover have "set (regexLoop allUsers (length pre) (CHR ''@'' # s))
      \<subseteq> set (regexLoop allUsers 0 (pre @ CHR ''@'' # s))"
    by (rule regexLoop_reaches) simp
  ultimately show ?thesis by blast
qed

lemma mentionSpan_fields:
  "key (mentionSpan allUsers j m) = j"
  "children (mentionSpan allUsers j m) = CHR ''@'' # m"
  by (simp_all add: mentionSpan_def Let_def)

lemma regexLoop_origin:
  "sp \<in> set (regexLoop allUsers i t) \<Longrightarrow>
     (\<exists>pre s. t = pre @ CHR ''@'' # s \<and> takeWhile isAlnum s \<noteq> []
         \<and> sp = mentionSpan allUsers (i + length pre) (takeWhile isAlnum s))
       \<or> (\<exists>j c seg. c \<noteq> CHR ''@'' \<and> sp = textSpan j (c # seg))"
proof (induction allUsers i t rule: regexLoop.induct)
  case (1 allUsers i)
  then show ?case by simp
next
  case (2 allUsers i c cs)
  let ?goal = "\<lambda>t. (\<exists>pre s. t = pre @ CHR ''@'' # s \<and> takeWhile isAlnum s \<noteq> []
         \<and> sp = mentionSpan allUsers (i + length pre) (takeWhile isAlnum s))
       \<or> (\<exists>j c seg. c \<noteq> CHR ''@'' \<and> sp = textSpan j (c # seg))"
  have later: "?goal (c # cs)"
    if tail: "(\<exists>pre s. rest = pre @ CHR ''@'' # s \<and> takeWhile isAlnum s \<noteq> []
         \<and> sp = mentionSpan allUsers (Suc i + length skipped + length pre) (takeWhile isAlnum s))
       \<or> (\<exists>j c seg. c \<noteq> CHR ''@'' \<and> sp = textSpan j (c # seg))"
      and whole: "cs = skipped @ rest" for skipped rest
  proof -
    from tail show ?thesis
    proof
      assume "\<exists>pre s. rest = pre @ CHR ''@'' # s \<and> takeWhile isAlnum s \<noteq> []
         \<and> sp = mentionSpan allUsers (Suc i + length skipped + length pre) (takeWhile isAlnum s)"
      then obtain pre s where ps: "rest = pre @ CHR ''@'' # s" "takeWhile isAlnum s \<noteq> []"
        "sp = mentionSpan allUsers (Suc i + length skipped + length pre) (takeWhile isAlnum s)"
        by blast
      have "c # cs = (c # skipped @ pre) @ CHR ''@'' # s" using whole ps(1) by simp
      moreover have "Suc i + length skipped + length pre = i + length (c # skipped @ pre)"
        by simp
      ultimately show ?thesis using ps(2,3) by metis
    next
      assume "\<exists>j c seg. c \<noteq> CHR ''@'' \<and> sp = textSpan j (c # seg)"
      then show ?thesis by blast
    qed
  qed
  show ?case
  proof (cases "c = CHR ''@''")
    case True
    note at = True
    show ?thesis
    proof (cases "takeWhile isAlnum cs = []")
      case True
      with at "2.prems" have "sp \<in> set (regexLoop allUsers (Suc i) cs)" by simp
      then have "(\<exists>pre s. cs = pre @ CHR ''@'' # s \<and> takeWhile isAlnum s \<noteq> []
         \<and> sp = mentionSpan allUsers (Suc i + length ([]::string) + length pre) (takeWhile isAlnum s))
       \<or> (\<exists>j c seg. c \<noteq> CHR ''@'' \<and> sp = textSpan j (c # seg))"
        using "2.IH"(1) at True by simp
      then show ?thesis by (rule later) simp
    next
      case False
      with at "2.prems" have "sp = mentionSpan allUsers i (takeWhile isAlnum cs)
          \<or> sp \<in> set (regexLoop allUsers (Suc i + length (takeWhile isAlnum cs)) (dropWhile isAlnum cs))"
        by simp
      then show ?thesis
      proof
        assume "sp = mentionSpan allUsers i (takeWhile isAlnum cs)"
        moreover have "c # cs = [] @ CHR ''@'' # cs" using at by simp
        ultimately have "c # cs = [] @ CHR ''@'' # cs \<and> takeWhile isAlnum cs \<noteq> []
            \<and> sp = mentionSpan allUsers (i + length ([]::string)) (takeWhile isAlnum cs)"
          using False by simp
        then show ?thesis by blast
      next
        assume "sp \<in> set (regexLoop allUsers (Suc i + length (takeWhile isAlnum cs)) (dropWhile isAlnum cs))"
        then have "(\<exists>pre s. dropWhile isAlnum cs = pre @ CHR ''@'' # s \<and> takeWhile isAlnum s \<noteq> []
           \<and> sp = mentionSpan allUsers (Suc i + length (takeWhile isAlnum cs) + length pre)
                  (takeWhile isAlnum s))
         \<or> (\<exists>j c seg. c \<noteq> CHR ''@'' \<and> sp = textSpan j (c # seg))"
          using "2.IH"(2) at False by simp
        then show ?thesis by (rule later) simp
      qed
    qed
  next
    case False
    with "2.prems" have "sp = textSpan i (c # takeWhile notAt cs)
        \<or> sp \<in> set (regexLoop allUsers (Suc i + length (takeWhile notAt cs)) (dropWhile notAt cs))"
      by simp
    then show ?thesis
    proof
      assume "sp = textSpan i (c # takeWhile notAt cs)"
      then show ?thesis using False by blast
    next
      assume "sp \<in> set (regexLoop allUsers (Suc i + length (takeWhile notAt cs)) (dropWhile notAt cs))"
      then have "(\<exists>pre s. dropWhile notAt cs = pre @ CHR ''@'' # s \<and> takeWhile isAlnum s \<noteq> []
         \<and> sp = mentionSpan allUsers (Suc i + length (takeWhile notAt cs) + length pre)
                (takeWhile isAlnum s))
       \<or> (\<exists>j c seg. c \<noteq> CHR ''@'' \<and> sp = textSpan j (c # seg))"
        using "2.IH"(3) False by simp
      then show ?thesis by (rule later) simp
    qed
  qed
qed

text \<open>
  Claim C9, as amended. The match is by prefix, as the comment at line 51 says.
  Every mention token of a non-empty text, an \<open>@\<close> followed by its longest run of
  at least one alphanumeric character, is rendered as a span at its index, and that
  span carries the known-user style if and only if the name is an initial segment
  of some known user id (an exact match is the case of an empty remainder).
  Conversely, every rendered span that carries the known-user style is such a
  mention token of the text.
\<close>

theorem formatTextContent_known_iff_prefix:
  assumes "formatTextContent text allUsers = Some parts"
  shows "(\<forall>pre s. text = pre @ CHR ''@'' # s \<and> takeWhile isAlnum s \<noteq> [] \<longrightarrow>
            (\<exists>sp \<in> set parts. key sp = length pre
                \<and> children sp = CHR ''@'' # takeWhile isAlnum s
                \<and> (className sp = Some ''text-blue-500 font-semibold'')
                    = (\<exists>u \<in> set allUsers. \<exists>r. u = takeWhile isAlnum s @ r)))
       \<and> (\<forall>sp \<in> set parts.
            (className sp = Some ''text-blue-500 font-semibold'')
              = (\<exists>pre s. text = pre @ CHR ''@'' # s \<and> takeWhile isAlnum s \<noteq> []
                    \<and> key sp = length pre
                    \<and> children sp = CHR ''@'' # takeWhile isAlnum s
                    \<and> (\<exists>u \<in> set allUsers. \<exists>r. u = takeWhile isAlnum s @ r)))"
proof -
  from assms have parts: "parts = regexLoop allUsers 0 text"
    by (auto simp: formatTextContent_def split: if_splits)
  have rendered: "\<exists>sp \<in> set parts. key sp = length pre
        \<and> children sp = CHR ''@'' # takeWhile isAlnum s
        \<and> (className sp = Some ''text-blue-500 font-semibold'')
            = (\<exists>u \<in> set allUsers. \<exists>r. u = takeWhile isAlnum s @ r)"
    if "text = pre @ CHR ''@'' # s \<and> takeWhile isAlnum s \<noteq> []" for pre s
  proof -
    from that have shape: "text = pre @ CHR ''@'' # s" and run: "takeWhile isAlnum s \<noteq> []"
      by simp_all
    let ?sp = "mentionSpan allUsers (length pre) (takeWhile isAlnum s)"
    have "?sp \<in> set parts"
      unfolding parts shape using run by (rule regexLoop_mention)
    moreover have "key ?sp = length pre"
      by (rule mentionSpan_fields)
    moreover have "children ?sp = CHR ''@'' # takeWhile isAlnum s"
      by (rule mentionSpan_fields)
    moreover have "(className ?sp = Some ''text-blue-500 font-semibold'')
        = (\<exists>u \<in> set allUsers. \<exists>r. u = takeWhile isAlnum s @ r)"
      by (simp add: mentionSpan_class list_ex_iff startsWith_iff)
    ultimately show ?thesis by blast
  qed
  have styled: "(className sp = Some ''text-blue-500 font-semibold'')
        = (\<exists>pre s. text = pre @ CHR ''@'' # s \<and> takeWhile isAlnum s \<noteq> []
              \<and> key sp = length pre
              \<and> children sp = CHR ''@'' # takeWhile isAlnum s
              \<and> (\<exists>u \<in> set allUsers. \<exists>r. u = takeWhile isAlnum s @ r))"
    if "sp \<in> set parts" for sp
  proof -
    from that have "sp \<in> set (regexLoop allUsers 0 text)" by (simp add: parts)
    then have "(\<exists>pre s. text = pre @ CHR ''@'' # s \<and> takeWhile isAlnum s \<noteq> []
         \<and> sp = mentionSpan allUsers (0 + length pre) (takeWhile isAlnum s))
       \<or> (\<exists>j c seg. c \<noteq> CHR ''@'' \<and> sp = textSpan j (c # seg))"
      by (rule regexLoop_origin)
    then consider (mention) pre s where "text = pre @ CHR ''@'' # s"
        "takeWhile isAlnum s \<noteq> []"
        "sp = mentionSpan allUsers (length pre) (takeWhile isAlnum s)"
      | (plain) j c seg where "c \<noteq> CHR ''@''" "sp = textSpan j (c # seg)"
      by auto
    then show ?thesis
    proof cases
      case mention
      let ?m = "takeWhile isAlnum s"
      have k: "key sp = length pre" and ch: "children sp = CHR ''@'' # ?m"
        using mention(3) by (simp_all add: mentionSpan_fields)
      have cls: "(className sp = Some ''text-blue-500 font-semibold'')
          = (\<exists>u \<in> set allUsers. \<exists>r. u = ?m @ r)"
        using mention(3) by (simp add: mentionSpan_class list_ex_iff startsWith_iff)
      show ?thesis
      proof
        assume "className sp = Some ''text-blue-500 font-semibold''"
        with cls have "\<exists>u \<in> set allUsers. \<exists>r. u = ?m @ r" by simp
        with mention(1,2) k ch show "\<exists>pre s. text = pre @ CHR ''@'' # s
            \<and> takeWhile isAlnum s \<noteq> [] \<and> key sp = length pre
            \<and> children sp = CHR ''@'' # takeWhile isAlnum s
            \<and> (\<exists>u \<in> set allUsers. \<exists>r. u = takeWhile isAlnum s @ r)"
          by blast
      next
        assume "\<exists>pre s. text = pre @ CHR ''@'' # s
            \<and> takeWhile isAlnum s \<noteq> [] \<and> key sp = length pre
            \<and> children sp = CHR ''@'' # takeWhile isAlnum s
            \<and> (\<exists>u \<in> set allUsers. \<exists>r. u = takeWhile isAlnum s @ r)"
        then obtain s' where "children sp = CHR ''@'' # takeWhile isAlnum s'"
          "\<exists>u \<in> set allUsers. \<exists>r. u = takeWhile isAlnum s' @ r"
          by blast
        with ch have "\<exists>u \<in> set allUsers. \<exists>r. u = ?m @ r" by simp
        with cls show "className sp = Some ''text-blue-500 font-semibold''" by simp
      qed
    next
      case plain
      then show ?thesis by (simp add: textSpan_def)
    qed
  qed
  from rendered styled show ?thesis by blast
qed

text \<open>
  The theorem of claim C9 at the text \<open>hi @al\<close> with \<open>alice\<close> the only known id.
\<close>

theorem formatTextContent_known_iff_prefix_witness:
  "\<exists>sp \<in> set [\<lparr>key = 0, className = None, children = ''hi ''\<rparr>,
               \<lparr>key = 3, className = Some ''text-blue-500 font-semibold'', children = ''@al''\<rparr>].
      key sp = length ''hi ''
        \<and> children sp = CHR ''@'' # ''al''
        \<and> className sp = Some ''text-blue-500 font-semibold''"
proof -
  let ?parts = "[\<lparr>key = 0, className = None, children = ''hi ''\<rparr>,
               \<lparr>key = 3, className = Some ''text-blue-500 font-semibold'', children = ''@al''\<rparr>]"
  have run: "formatTextContent ''hi @al'' [''alice''] = Some ?parts"
    by code_simp
  have tw: "takeWhile isAlnum ''al'' = ''al''"
    by code_simp
  have split: "''hi @al'' = ''hi '' @ CHR ''@'' # ''al'' \<and> takeWhile isAlnum ''al'' \<noteq> []"
    unfolding tw by simp
  have known: "\<exists>u \<in> set [''alice'']. \<exists>r. u = takeWhile isAlnum ''al'' @ r"
    unfolding tw by simp
  from formatTextContent_known_iff_prefix [OF run] split
  obtain sp where sp: "sp \<in> set ?parts" "key sp = length ''hi ''"
    "children sp = CHR ''@'' # takeWhile isAlnum ''al''"
    "(className sp = Some ''text-blue-500 font-semibold'')
       = (\<exists>u \<in> set [''alice'']. \<exists>r. u = takeWhile isAlnum ''al'' @ r)"
    by blast
  from sp(4) known have "className sp = Some ''text-blue-500 font-semibold''" by (rule iffD2)
  with sp(1,2,3) show ?thesis unfolding tw by blast
qed

text \<open>
  Claim C9 as stated fails: with \<open>alice\<close> the only known id, the mention \<open>@al\<close>
  is styled as a known user although \<open>al\<close> is not a known id.
\<close>

theorem formatTextContent_exact_match_counterexample:
  "formatTextContent ''hi @al'' [''alice''] =
     Some [\<lparr>key = 0, className = None, children = ''hi ''\<rparr>,
           \<lparr>key = 3, className = Some ''text-blue-500 font-semibold'', children = ''@al''\<rparr>]
   \<and> ''al'' \<notin> set [''alice'']"
proof
  show "formatTextContent ''hi @al'' [''alice''] =
     Some [\<lparr>key = 0, className = None, children = ''hi ''\<rparr>,
           \<lparr>key = 3, className = Some ''text-blue-500 font-semibold'', children = ''@al''\<rparr>]"
    by code_simp
  show "''al'' \<notin> set [''alice'']" by simp
qed

section \<open>Properties of the like button\<close>

lemma fetchedPost_fields:
  "id' (fetchedPost (pid, d)) = pid"
  "likes (fetchedPost (pid, d)) = likes d"
  "comments (fetchedPost (pid, d)) = comments d"
  "likesOf (fetchedPost (pid, d)) = likesOf d"
  "commentsOf (fetchedPost (pid, d)) = commentsOf d"
  by (simp_all add: fetchedPost_def likesOf_def commentsOf_def)

lemma fetchedPost_data:
  "userId (fetchedPost (pid, d)) = userId d"
  "content (fetchedPost (pid, d)) = content d"
  "timestamp (fetchedPost (pid, d)) = timestamp d"
  by (simp_all add: fetchedPost_def)

lemma currentId_nonempty: "currentId u = Some uid \<Longrightarrow> uid \<noteq> []"
  by (auto simp: currentId_def split: option.splits if_splits)

lemma filter_other_removeAll: "filter (\<lambda>i. i \<noteq> uid) ls = removeAll uid ls"
  by (induction ls) auto

lemma newLikes_removeAll:
  "newLikes ls uid = (if uid \<in> set ls then removeAll uid ls else ls @ [uid])"
  by (simp add: newLikes_def filter_other_removeAll)

lemma newLikes_member: "(uid \<in> set (newLikes ls uid)) = (uid \<notin> set ls)"
  by (simp add: newLikes_def)

lemma likesOf_likesUpdate: "likesOf (likesUpdate l d) = l"
  by (simp add: likesOf_def likesUpdate_def)

lemma handleLike_existing:
  assumes "postsCol w (id' post) = Some d" and "uid \<noteq> []"
  shows "handleLike True (Some uid) post w =
           (Undefined,
            w\<lparr>postsCol := (postsCol w)(id' post \<mapsto> likesUpdate (newLikes (likesOf post) uid) d)\<rparr>)"
  using assms by (simp add: handleLike_def updateDoc_def)

text \<open>
  Claim C2, as amended. For a post whose document exists and a signed-in user (a
  non-empty id, with the database handle set), \<open>handleLike\<close> replaces the stored
  like list by the list computed from the post as rendered: the rendered list
  without the user when the user is in it, and otherwise the rendered list with the
  user added at the end. The stored list itself is not read, so on a render that is
  out of date the likes stored since are overwritten. No other field of the
  document, no other document and no console output changes. The handler hands no
  value back (\<open>undefined\<close>); the flag \<open>userLiked\<close> of the post rendered from the
  updated document is true exactly when the user was not in the rendered list.
\<close>

theorem handleLike_toggles:
  assumes "postsCol w (id' post) = Some d" and "uid \<noteq> []"
  shows "handleLike True (Some uid) post w =
           (Undefined,
            w\<lparr>postsCol := (postsCol w)(id' post \<mapsto>
                 d\<lparr>likes := Some (if uid \<in> set (likesOf post) then removeAll uid (likesOf post)
                                  else likesOf post @ [uid])\<rparr>)\<rparr>)
       \<and> userLiked
            (fetchedPost (id' post,
               d\<lparr>likes := Some (if uid \<in> set (likesOf post) then removeAll uid (likesOf post)
                                else likesOf post @ [uid])\<rparr>))
            (Some uid)
           = (uid \<notin> set (likesOf post))"
proof
  show "handleLike True (Some uid) post w =
           (Undefined,
            w\<lparr>postsCol := (postsCol w)(id' post \<mapsto>
                 d\<lparr>likes := Some (if uid \<in> set (likesOf post) then removeAll uid (likesOf post)
                                  else likesOf post @ [uid])\<rparr>)\<rparr>)"
    unfolding handleLike_existing [OF assms] likesUpdate_def newLikes_removeAll ..
  show "userLiked
            (fetchedPost (id' post,
               d\<lparr>likes := Some (if uid \<in> set (likesOf post) then removeAll uid (likesOf post)
                                else likesOf post @ [uid])\<rparr>))
            (Some uid)
           = (uid \<notin> set (likesOf post))"
    by (simp add: userLiked_def fetchedPost_fields)
qed

lemma heronPost_fields: "id' heronPost = ''p1''" "likesOf heronPost = []"
  by (simp_all add: heronPost_def fetchedPost_fields likesOf_def heronDoc_def)

lemma heronLikedPost_fields: "id' heronLikedPost = ''p1''" "likesOf heronLikedPost = [''bob'']"
  by (simp_all add: heronLikedPost_def fetchedPost_fields likesOf_def)

lemma heronWorld_p1: "postsCol heronWorld ''p1'' = Some heronDoc"
  by (simp add: heronWorld_def)

text \<open>
  The theorem of claim C2 at the heron post, liked by \<open>bob\<close>, and at a render of
  the heron post that is out of date: \<open>carol\<close> clicks on the render without likes
  when the stored list is \<open>[bob]\<close>, and the stored list becomes \<open>[carol]\<close>.
\<close>

theorem handleLike_toggles_witness:
  "handleLike True (Some ''bob'') heronPost heronWorld =
           (Undefined,
            heronWorld\<lparr>postsCol := (postsCol heronWorld)(''p1'' \<mapsto> heronDoc\<lparr>likes := Some [''bob'']\<rparr>)\<rparr>)
       \<and> userLiked (fetchedPost (''p1'', heronDoc\<lparr>likes := Some [''bob'']\<rparr>)) (Some ''bob'')
       \<and> handleLike True (Some ''carol'') heronPost likedWorld =
           (Undefined,
            likedWorld\<lparr>postsCol := (postsCol likedWorld)(''p1'' \<mapsto>
               heronDoc\<lparr>likes := Some [''bob''], likes := Some [''carol'']\<rparr>)\<rparr>)"
proof -
  have ex: "postsCol heronWorld (id' heronPost) = Some heronDoc"
    by (simp add: heronPost_fields heronWorld_p1)
  have ne: "''bob'' \<noteq> []" by simp
  have fresh: "handleLike True (Some ''bob'') heronPost heronWorld =
           (Undefined,
            heronWorld\<lparr>postsCol := (postsCol heronWorld)(''p1'' \<mapsto> heronDoc\<lparr>likes := Some [''bob'']\<rparr>)\<rparr>)
       \<and> userLiked (fetchedPost (''p1'', heronDoc\<lparr>likes := Some [''bob'']\<rparr>)) (Some ''bob'')"
    using handleLike_toggles [OF ex ne] by (simp add: heronPost_fields)
  have ex': "postsCol likedWorld (id' heronPost) = Some (heronDoc\<lparr>likes := Some [''bob'']\<rparr>)"
    by (simp add: heronPost_fields likedWorld_def)
  have ne': "''carol'' \<noteq> []" by simp
  have stale: "handleLike True (Some ''carol'') heronPost likedWorld =
           (Undefined,
            likedWorld\<lparr>postsCol := (postsCol likedWorld)(''p1'' \<mapsto>
               heronDoc\<lparr>likes := Some [''bob''], likes := Some [''carol'']\<rparr>)\<rparr>)"
    using handleLike_toggles [OF ex' ne'] by (simp add: heronPost_fields)
  from fresh stale show ?thesis by blast
qed

text \<open>
  Claim C2 as stated fails on the returned value: when \<open>bob\<close>, not yet a member,
  likes the heron post, the like list becomes \<open>[bob]\<close> but the handler's result is
  \<open>undefined\<close>, not \<open>true\<close>.
\<close>

theorem handleLike_returns_counterexample:
  "fst (handleLike True (Some ''bob'') heronPost heronWorld) = Undefined
   \<and> ''bob'' \<notin> set (likesOf heronPost)
   \<and> map_option likesOf (postsCol (snd (handleLike True (Some ''bob'') heronPost heronWorld)) ''p1'')
       = Some [''bob'']"
proof -
  have ex: "postsCol heronWorld (id' heronPost) = Some heronDoc"
    by (simp add: heronPost_fields heronWorld_p1)
  have ne: "''bob'' \<noteq> []" by simp
  show ?thesis
    by (simp add: handleLike_existing [OF ex ne] heronPost_fields likesOf_likesUpdate newLikes_def)
qed

lemma handleLikeCalls_membership:
  assumes "uid \<noteq> []"
  shows "postsCol w pid = Some d \<Longrightarrow> freshRenders True (Some uid) pid renders w \<Longrightarrow>
     \<exists>d'. postsCol (handleLikeCalls True (Some uid) renders w) pid = Some d'
        \<and> (uid \<in> set (likesOf d')) = ((uid \<in> set (likesOf d)) \<noteq> odd (length renders))"
proof (induction renders arbitrary: w d)
  case Nil
  then show ?case by simp
next
  case (Cons p ps)
  from Cons.prems have p: "p = fetchedPost (pid, d)"
    by (simp add: currentPost_def)
  let ?d1 = "likesUpdate (newLikes (likesOf d) uid) d"
  let ?w1 = "w\<lparr>postsCol := (postsCol w)(pid \<mapsto> ?d1)\<rparr>"
  have ex: "postsCol w (id' p) = Some d" using Cons.prems(1) p by (simp add: fetchedPost_fields)
  have call: "snd (handleLike True (Some uid) p w) = ?w1"
    using handleLike_existing [OF ex assms] p by (simp add: fetchedPost_fields)
  have fresh: "freshRenders True (Some uid) pid ps ?w1"
    using Cons.prems(2) call by simp
  have "postsCol ?w1 pid = Some ?d1" by simp
  from Cons.IH [OF this fresh] obtain d' where
    d': "postsCol (handleLikeCalls True (Some uid) ps ?w1) pid = Some d'"
      "(uid \<in> set (likesOf d')) = ((uid \<in> set (likesOf ?d1)) \<noteq> odd (length ps))"
    by blast
  have "(uid \<in> set (likesOf ?d1)) = (uid \<notin> set (likesOf d))"
    by (simp add: likesOf_likesUpdate newLikes_member)
  with d' call show ?case by auto
qed

text \<open>
  Claim C3, as amended. For a post of the collection, a signed-in user (a non-empty
  id, with the database handle set) who is not in the post's like list, and every
  sequence of clicks of that user on the like button in which each click is made on
  the post as rendered from the document stored at that moment: after the clicks
  the post is still there and the user is in its like list exactly when the number
  of clicks is odd.
\<close>

theorem handleLikeCalls_parity:
  assumes "postsCol w pid = Some d" and "uid \<noteq> []" and "uid \<notin> set (likesOf d)"
    and "freshRenders True (Some uid) pid renders w"
  shows "\<exists>d'. postsCol (handleLikeCalls True (Some uid) renders w) pid = Some d'
            \<and> (uid \<in> set (likesOf d')) = odd (length renders)"
  using handleLikeCalls_membership [OF assms(2) assms(1) assms(4)] assms(3) by simp

lemma heron_first_like:
  "snd (handleLike True (Some ''bob'') heronPost heronWorld)
     = heronWorld\<lparr>postsCol := (postsCol heronWorld)(''p1'' \<mapsto> heronDoc\<lparr>likes := Some [''bob'']\<rparr>)\<rparr>"
proof -
  have ex: "postsCol heronWorld (id' heronPost) = Some heronDoc"
    by (simp add: heronPost_fields heronWorld_p1)
  have ne: "''bob'' \<noteq> []" by simp
  show ?thesis
    by (simp add: handleLike_existing [OF ex ne] heronPost_fields likesUpdate_def newLikes_def)
qed

lemma heron_second_like:
  "snd (handleLike True (Some ''bob'') heronLikedPost
          (heronWorld\<lparr>postsCol := (postsCol heronWorld)(''p1'' \<mapsto> heronDoc\<lparr>likes := Some [''bob'']\<rparr>)\<rparr>))
     = heronWorld"
proof -
  let ?w1 = "heronWorld\<lparr>postsCol := (postsCol heronWorld)(''p1'' \<mapsto> heronDoc\<lparr>likes := Some [''bob'']\<rparr>)\<rparr>"
  have ex: "postsCol ?w1 (id' heronLikedPost) = Some (heronDoc\<lparr>likes := Some [''bob'']\<rparr>)"
    by (simp add: heronLikedPost_fields)
  have ne: "''bob'' \<noteq> []" by simp
  have same: "heronDoc\<lparr>likes := Some []\<rparr> = heronDoc" by (simp add: heronDoc_def)
  show ?thesis
    unfolding handleLike_existing [OF ex ne]
    by (simp add: heronLikedPost_fields likesUpdate_def newLikes_def same heronWorld_def)
qed

lemma heron_renders_fresh:
  "freshRenders True (Some ''bob'') ''p1'' [heronPost, heronLikedPost, heronPost] heronWorld"
proof -
  have c0: "currentPost heronWorld ''p1'' = Some heronPost"
    by (simp add: currentPost_def heronWorld_p1 heronPost_def)
  have c1: "currentPost
      (heronWorld\<lparr>postsCol := (postsCol heronWorld)(''p1'' \<mapsto> heronDoc\<lparr>likes := Some [''bob'']\<rparr>)\<rparr>) ''p1''
      = Some heronLikedPost"
    by (simp add: currentPost_def heronLikedPost_def)
  show ?thesis
    by (simp add: c0 c1 heron_first_like heron_second_like)
qed

text \<open>
  The theorem of claim C3 for three clicks of \<open>bob\<close> on the heron post, with a
  re-render after each.
\<close>

theorem handleLikeCalls_parity_witness:
  "\<exists>d'. postsCol (handleLikeCalls True (Some ''bob'') [heronPost, heronLikedPost, heronPost] heronWorld) ''p1''
          = Some d'
        \<and> (''bob'' \<in> set (likesOf d')) = odd (length [heronPost, heronLikedPost, heronPost])"
proof (rule handleLikeCalls_parity)
  show "postsCol heronWorld ''p1'' = Some heronDoc" by (rule heronWorld_p1)
  show "''bob'' \<noteq> []" by simp
  show "''bob'' \<notin> set (likesOf heronDoc)" by (simp add: likesOf_def heronDoc_def)
  show "freshRenders True (Some ''bob'') ''p1'' [heronPost, heronLikedPost, heronPost] heronWorld"
    by (rule heron_renders_fresh)
qed

lemma heron_same_render_again:
  "snd (handleLike True (Some ''bob'') heronPost
          (heronWorld\<lparr>postsCol := (postsCol heronWorld)(''p1'' \<mapsto> heronDoc\<lparr>likes := Some [''bob'']\<rparr>)\<rparr>))
     = heronWorld\<lparr>postsCol := (postsCol heronWorld)(''p1'' \<mapsto> heronDoc\<lparr>likes := Some [''bob'']\<rparr>)\<rparr>"
proof -
  let ?w1 = "heronWorld\<lparr>postsCol := (postsCol heronWorld)(''p1'' \<mapsto> heronDoc\<lparr>likes := Some [''bob'']\<rparr>)\<rparr>"
  have ex: "postsCol ?w1 (id' heronPost) = Some (heronDoc\<lparr>likes := Some [''bob'']\<rparr>)"
    by (simp add: heronPost_fields)
  have ne: "''bob'' \<noteq> []" by simp
  show ?thesis
    by (simp add: handleLike_existing [OF ex ne] heronPost_fields likesUpdate_def newLikes_def)
qed

text \<open>
  Claim C3 as stated fails when the component is not re-rendered between the
  clicks: two clicks of \<open>bob\<close> on the same render of the heron post write the list
  \<open>[bob]\<close> twice, so after an even number of calls \<open>bob\<close> is a member.
\<close>

theorem handleLike_same_render_counterexample:
  "''bob'' \<notin> set (likesOf heronDoc)
   \<and> even (length [heronPost, heronPost])
   \<and> map_option likesOf
        (postsCol (handleLikeCalls True (Some ''bob'') [heronPost, heronPost] heronWorld) ''p1'')
       = Some [''bob'']"
proof (intro conjI)
  show "''bob'' \<notin> set (likesOf heronDoc)" by (simp add: likesOf_def heronDoc_def)
  show "even (length [heronPost, heronPost])" by simp
  show "map_option likesOf
        (postsCol (handleLikeCalls True (Some ''bob'') [heronPost, heronPost] heronWorld) ''p1'')
       = Some [''bob'']"
    by (simp add: heron_first_like heron_same_render_again likesOf_def)
qed

lemma handleLike_same_render_twice:
  "postsCol (snd (handleLike db u post (snd (handleLike db u post w))))
     = postsCol (snd (handleLike db u post w))"
  by (auto simp: handleLike_def updateDoc_def likesUpdate_def split: option.splits)

section \<open>Properties of \<open>handleAddComment\<close>\<close>

lemma trim_blank3: "trim ''   '' = []"
  by code_simp

lemma trim_nbsp: "trim [CHR 0xA0] = []"
  by code_simp

lemma trim_hi: "trim ''hi @bob'' = ''hi @bob''"
  by code_simp

lemma serverTimestamp_refused:
  "updateDocArrayUnion col docId \<lparr>a_userId = uid, a_text = body, a_timestamp = ServerTimestamp\<rparr>
     = Inl InvalidArgument"
  by (simp add: updateDocArrayUnion_def arrayUnionArg_def)

lemma handleAddComment_result:
  "handleAddComment db u post st w =
     (if db \<and> (\<exists>uid. u = Some uid \<and> uid \<noteq> []) \<and> trim (commentText st) \<noteq> []
      then (Undefined, st, w\<lparr>consoleErrors := consoleErrors w @ [''Error adding comment:'']\<rparr>)
      else (Undefined, st, w))"
  by (auto simp: handleAddComment_def Let_def serverTimestamp_refused split: option.splits)

lemma handleAddComment_keeps_collection:
  "postsCol (snd (snd (handleAddComment db u post st w))) = postsCol w"
  by (simp add: handleAddComment_result)

text \<open>
  Claim C1. Delivering a like click twice on the same render leaves the collection
  as delivering it once does. Delivering a comment once or twice leaves the
  collection as it was: \<open>handleAddComment\<close> hands \<open>serverTimestamp()\<close> to
  \<open>arrayUnion\<close>, the write is refused before it is sent, and no copy of the
  comment is stored, where the claim has exactly one.
\<close>

theorem handleAddComment_redelivery_stores_none:
  "postsCol (snd (snd (handleAddComment db u post st w))) = postsCol w
   \<and> postsCol (snd (snd (handleAddComment db u post st
                 (snd (snd (handleAddComment db u post st w)))))) = postsCol w
   \<and> postsCol (snd (handleLike db u post (snd (handleLike db u post w))))
       = postsCol (snd (handleLike db u post w))"
  by (simp only: handleAddComment_keeps_collection handleLike_same_render_twice simp_thms)

text \<open>
  The theorem of claim C1 for the comment of \<open>carol\<close> delivered twice to the heron
  post: the post has no comment afterwards.
\<close>

theorem handleAddComment_redelivery_stores_none_witness:
  "map_option commentsOf
     (postsCol (snd (snd (handleAddComment True (Some ''carol'') heronPost carolForm
                 (snd (snd (handleAddComment True (Some ''carol'') heronPost carolForm heronWorld))))))
        ''p1'')
     = Some []"
proof -
  have "postsCol (snd (snd (handleAddComment True (Some ''carol'') heronPost carolForm
                 (snd (snd (handleAddComment True (Some ''carol'') heronPost carolForm heronWorld))))))
      = postsCol heronWorld"
    using handleAddComment_redelivery_stores_none
      [of True "Some ''carol''" heronPost carolForm heronWorld]
    by blast
  then show ?thesis
    by (simp add: heronWorld_p1 commentsOf_def heronDoc_def)
qed

text \<open>
  Claim C5. For a post whose document exists, a signed-in user and a comment text
  that is not blank, \<open>handleAddComment\<close> logs "Error adding comment:", keeps the
  text in the input and leaves the stored comments of the post as they were: the
  new comment is not appended.
\<close>

theorem handleAddComment_appends_nothing:
  assumes "postsCol w (id' post) = Some d" and "uid \<noteq> []" and "trim (commentText st) \<noteq> []"
  shows "handleAddComment True (Some uid) post st w =
           (Undefined, st, w\<lparr>consoleErrors := consoleErrors w @ [''Error adding comment:'']\<rparr>)
       \<and> map_option commentsOf
           (postsCol (snd (snd (handleAddComment True (Some uid) post st w))) (id' post))
          = Some (commentsOf d)"
  using assms by (simp add: handleAddComment_result)

text \<open>
  The theorem of claim C5 for the comment of \<open>carol\<close> on the heron post, which has
  no comment before and none after.
\<close>

theorem handleAddComment_appends_nothing_witness:
  "handleAddComment True (Some ''carol'') heronPost carolForm heronWorld =
           (Undefined, carolForm,
            heronWorld\<lparr>consoleErrors := consoleErrors heronWorld @ [''Error adding comment:'']\<rparr>)
       \<and> map_option commentsOf
           (postsCol (snd (snd (handleAddComment True (Some ''carol'') heronPost carolForm heronWorld)))
              ''p1'')
          = Some []"
proof -
  have ex: "postsCol heronWorld (id' heronPost) = Some heronDoc"
    by (simp add: heronPost_fields heronWorld_p1)
  have ne: "''carol'' \<noteq> []" by simp
  have body: "trim (commentText carolForm) \<noteq> []" by (simp add: carolForm_def trim_hi)
  have none: "commentsOf heronDoc = []" by (simp add: commentsOf_def heronDoc_def)
  from handleAddComment_appends_nothing [OF ex ne body] show ?thesis
    unfolding heronPost_fields(1) none .
qed

text \<open>
  Claim C6, as amended. \<open>handleAddComment\<close> hands no error back. When the comment
  text is empty after trimming it returns \<open>undefined\<close> at once: nothing is written,
  nothing is logged, and the component state is as before. When the text is not
  blank, the user is signed in and the post's document does not exist, the write
  fails, the handler catches the failure, logs "Error adding comment:" to the
  console and returns \<open>undefined\<close>; the collection and the component state are as
  before.
\<close>

theorem handleAddComment_failures:
  "(trim (commentText st) = [] \<longrightarrow>
      handleAddComment db u post st w = (Undefined, st, w))
   \<and> (trim (commentText st) \<noteq> [] \<and> uid \<noteq> [] \<and> postsCol w (id' post) = None \<longrightarrow>
        handleAddComment True (Some uid) post st w =
          (Undefined, st, w\<lparr>consoleErrors := consoleErrors w @ [''Error adding comment:'']\<rparr>))"
  by (simp add: handleAddComment_result)


text \<open>
  The theorem of claim C6 for a comment of blanks on the heron post, a comment of one
  no-break space, and a comment on a post \<open>p9\<close> that the collection does not hold.
\<close>

theorem handleAddComment_failures_witness:
  "handleAddComment True (Some ''carol'') heronPost blankForm heronWorld
     = (Undefined, blankForm, heronWorld)
   \<and> handleAddComment True (Some ''carol'') p9Post nbspForm heronWorld
     = (Undefined, nbspForm, heronWorld)
   \<and> handleAddComment True (Some ''carol'') p9Post carolForm heronWorld
     = (Undefined, carolForm,
        heronWorld\<lparr>consoleErrors := consoleErrors heronWorld @ [''Error adding comment:'']\<rparr>)"
proof (intro conjI)
  have "trim (commentText blankForm) = []" by (simp add: blankForm_def trim_blank3)
  with handleAddComment_failures [of blankForm True "Some ''carol''" heronPost heronWorld]
  show "handleAddComment True (Some ''carol'') heronPost blankForm heronWorld
     = (Undefined, blankForm, heronWorld)"
    by blast
next
  have "trim (commentText nbspForm) = []" by (simp add: nbspForm_def trim_nbsp)
  with handleAddComment_failures [of nbspForm True "Some ''carol''" p9Post heronWorld]
  show "handleAddComment True (Some ''carol'') p9Post nbspForm heronWorld
     = (Undefined, nbspForm, heronWorld)"
    by blast
next
  have "trim (commentText carolForm) \<noteq> []" by (simp add: carolForm_def trim_hi)
  moreover have "''carol'' \<noteq> []" by simp
  moreover have "postsCol heronWorld (id' p9Post) = None"
    by (simp add: p9Post_def fetchedPost_fields heronWorld_def)
  ultimately show "handleAddComment True (Some ''carol'') p9Post carolForm heronWorld
     = (Undefined, carolForm,
        heronWorld\<lparr>consoleErrors := consoleErrors heronWorld @ [''Error adding comment:'']\<rparr>)"
    using handleAddComment_failures [of carolForm True "Some ''carol''" p9Post heronWorld "''carol''"]
    by blast
qed

text \<open>
  Claim C6 as stated fails: the caller is handed \<open>undefined\<close> for a blank comment,
  with nothing logged, and for a comment on a post that does not exist; no
  \<open>InvalidInput\<close> or \<open>NotFound\<close> reaches it.
\<close>

theorem handleAddComment_silent_counterexample:
  "fst (handleAddComment True (Some ''carol'') heronPost blankForm heronWorld) = Undefined
   \<and> consoleErrors (snd (snd (handleAddComment True (Some ''carol'') heronPost blankForm heronWorld)))
       = []
   \<and> fst (handleAddComment True (Some ''carol'') p9Post carolForm heronWorld) = Undefined"
proof (intro conjI)
  have blank: "handleAddComment True (Some ''carol'') heronPost blankForm heronWorld
     = (Undefined, blankForm, heronWorld)"
    by (simp add: handleAddComment_result blankForm_def trim_blank3)
  show "fst (handleAddComment True (Some ''carol'') heronPost blankForm heronWorld) = Undefined"
    by (simp add: blank)
  show "consoleErrors (snd (snd (handleAddComment True (Some ''carol'') heronPost blankForm heronWorld)))
       = []"
    unfolding blank by (simp add: heronWorld_def)
  show "fst (handleAddComment True (Some ''carol'') p9Post carolForm heronWorld) = Undefined"
    by (simp add: handleAddComment_result)
qed

section \<open>Properties of \<open>handleSubmit\<close>\<close>

lemma trim_blank2: "trim ''  '' = []"
  by code_simp

lemma trim_heron: "trim '' Saw a heron '' = ''Saw a heron''"
  by code_simp

text \<open>
  Claim C7, as amended. For a signed-in user with the database handle set,
  \<open>handleSubmit\<close> does nothing when the text is empty after trimming (a text of
  blanks included). Otherwise, when the backend accepts the document, it adds one
  document under the id the backend generates, with the user as author, the trimmed
  text as content, the timestamp the server assigns, an empty like list and an empty
  comment list, and clears the text field. It hands no value back: the new id is not
  returned. When the id is new, the documents already there stay as they are, and
  every snapshot of the collection taken afterwards yields a post with that id,
  author, trimmed content and timestamp, no likes and no comments.
\<close>

theorem handleSubmit_creates_post:
  assumes "uid \<noteq> []"
    and "postsCol w newId = None"
    and "map_of docs = postsCol (snd (snd (handleSubmit True (Some uid) (Inr newId) t st w)))"
  shows "handleSubmit True (Some uid) (Inr newId) t st w =
           (if trim (contentText st) = [] then (Undefined, st, w)
            else (Undefined, st\<lparr>contentText := [], isPosting := False\<rparr>,
                  w\<lparr>postsCol := (postsCol w)(newId \<mapsto>
                       \<lparr>userId = uid, content = trim (contentText st), timestamp = t,
                        likes = Some [], comments = Some []\<rparr>)\<rparr>))
         \<and> postsCol w \<subseteq>\<^sub>m postsCol (snd (snd (handleSubmit True (Some uid) (Inr newId) t st w)))
         \<and> (trim (contentText st) \<noteq> [] \<longrightarrow>
              (\<exists>q \<in> set (fetchedPosts docs).
                  id' q = newId \<and> userId q = uid \<and> content q = trim (contentText st)
                  \<and> timestamp q = t \<and> likesOf q = [] \<and> commentsOf q = []))"
proof -
  let ?doc = "\<lparr>userId = uid, content = trim (contentText st), timestamp = t,
               likes = Some [], comments = Some []\<rparr>"
  have run: "handleSubmit True (Some uid) (Inr newId) t st w =
           (if trim (contentText st) = [] then (Undefined, st, w)
            else (Undefined, st\<lparr>contentText := [], isPosting := False\<rparr>,
                  w\<lparr>postsCol := (postsCol w)(newId \<mapsto> ?doc)\<rparr>))"
    using assms(1) by (simp add: handleSubmit_def addDoc_def)
  have le: "postsCol w \<subseteq>\<^sub>m postsCol (snd (snd (handleSubmit True (Some uid) (Inr newId) t st w)))"
    using assms(2) by (auto simp add: run map_le_def)
  have snap: "\<exists>q \<in> set (fetchedPosts docs).
                  id' q = newId \<and> userId q = uid \<and> content q = trim (contentText st)
                  \<and> timestamp q = t \<and> likesOf q = [] \<and> commentsOf q = []"
    if "trim (contentText st) \<noteq> []"
  proof -
    from that assms(3) have "map_of docs newId = Some ?doc" by (simp add: run)
    then have "(newId, ?doc) \<in> set docs" by (rule map_of_SomeD)
    then have "fetchedPost (newId, ?doc) \<in> set (fetchedPosts docs)"
      by (simp add: fetchedPosts_def)
    moreover have "id' (fetchedPost (newId, ?doc)) = newId
        \<and> userId (fetchedPost (newId, ?doc)) = uid
        \<and> content (fetchedPost (newId, ?doc)) = trim (contentText st)
        \<and> timestamp (fetchedPost (newId, ?doc)) = t
        \<and> likesOf (fetchedPost (newId, ?doc)) = []
        \<and> commentsOf (fetchedPost (newId, ?doc)) = []"
      by (simp add: fetchedPost_fields fetchedPost_data likesOf_def commentsOf_def)
    ultimately show ?thesis by blast
  qed
  from run le snap show ?thesis by blast
qed

lemma heron_submit:
  "handleSubmit True (Some ''alice'') (Inr ''p1'') (sampleTime 100)
        \<lparr>contentText = '' Saw a heron '', isPosting = False\<rparr> emptyWorld
     = (Undefined, \<lparr>contentText = [], isPosting = False\<rparr>, heronWorld)"
  by (simp add: handleSubmit_def addDoc_def trim_heron emptyWorld_def heronWorld_def heronDoc_def)

text \<open>
  The theorem of claim C7 for \<open>alice\<close> posting " Saw a heron " to the empty
  collection, where the backend generates the id \<open>p1\<close>.
\<close>

theorem handleSubmit_creates_post_witness:
  "handleSubmit True (Some ''alice'') (Inr ''p1'') (sampleTime 100)
        \<lparr>contentText = '' Saw a heron '', isPosting = False\<rparr> emptyWorld
     = (Undefined, \<lparr>contentText = [], isPosting = False\<rparr>, heronWorld)
   \<and> (\<exists>q \<in> set (fetchedPosts [(''p1'', heronDoc)]).
          id' q = ''p1'' \<and> userId q = ''alice'' \<and> content q = ''Saw a heron''
          \<and> timestamp q = sampleTime 100 \<and> likesOf q = [] \<and> commentsOf q = [])"
proof -
  let ?st = "\<lparr>contentText = '' Saw a heron '', isPosting = False\<rparr>"
  have ne: "''alice'' \<noteq> []" by simp
  have fresh: "postsCol emptyWorld ''p1'' = None" by (simp add: emptyWorld_def)
  have snap: "map_of [(''p1'', heronDoc)] =
      postsCol (snd (snd (handleSubmit True (Some ''alice'') (Inr ''p1'') (sampleTime 100) ?st emptyWorld)))"
    by (simp add: heron_submit heronWorld_def)
  have body: "trim (contentText ?st) \<noteq> []" by (simp add: trim_heron)
  from handleSubmit_creates_post [OF ne fresh snap] body
  have "\<exists>q \<in> set (fetchedPosts [(''p1'', heronDoc)]).
          id' q = ''p1'' \<and> userId q = ''alice'' \<and> content q = trim (contentText ?st)
          \<and> timestamp q = sampleTime 100 \<and> likesOf q = [] \<and> commentsOf q = []"
    by blast
  then have "\<exists>q \<in> set (fetchedPosts [(''p1'', heronDoc)]).
          id' q = ''p1'' \<and> userId q = ''alice'' \<and> content q = ''Saw a heron''
          \<and> timestamp q = sampleTime 100 \<and> likesOf q = [] \<and> commentsOf q = []"
    by (simp add: trim_heron)
  with heron_submit show ?thesis by blast
qed

text \<open>
  Claim C7 as stated fails: the handler's result is \<open>undefined\<close>, not the new id;
  the stored content is the trimmed text, not the text entered; and a text of two
  blanks, which is not empty, creates no post.
\<close>

theorem handleSubmit_returns_counterexample:
  "fst (handleSubmit True (Some ''alice'') (Inr ''p1'') (sampleTime 100)
          \<lparr>contentText = '' Saw a heron '', isPosting = False\<rparr> emptyWorld) = Undefined
   \<and> map_option content
        (postsCol (snd (snd (handleSubmit True (Some ''alice'') (Inr ''p1'') (sampleTime 100)
          \<lparr>contentText = '' Saw a heron '', isPosting = False\<rparr> emptyWorld))) ''p1'')
       = Some ''Saw a heron''
   \<and> handleSubmit True (Some ''alice'') (Inr ''p1'') (sampleTime 100)
          \<lparr>contentText = ''  '', isPosting = False\<rparr> emptyWorld
       = (Undefined, \<lparr>contentText = ''  '', isPosting = False\<rparr>, emptyWorld)"
proof (intro conjI)
  show "fst (handleSubmit True (Some ''alice'') (Inr ''p1'') (sampleTime 100)
          \<lparr>contentText = '' Saw a heron '', isPosting = False\<rparr> emptyWorld) = Undefined"
    by (simp add: heron_submit)
  show "map_option content
        (postsCol (snd (snd (handleSubmit True (Some ''alice'') (Inr ''p1'') (sampleTime 100)
          \<lparr>contentText = '' Saw a heron '', isPosting = False\<rparr> emptyWorld))) ''p1'')
       = Some ''Saw a heron''"
    by (simp add: heron_submit heronWorld_def heronDoc_def)
  show "handleSubmit True (Some ''alice'') (Inr ''p1'') (sampleTime 100)
          \<lparr>contentText = ''  '', isPosting = False\<rparr> emptyWorld
       = (Undefined, \<lparr>contentText = ''  '', isPosting = False\<rparr>, emptyWorld)"
    by (simp add: handleSubmit_def trim_blank2)
qed

lemma handleSubmit_refused:
  assumes "uid \<noteq> []" and "trim (contentText st) \<noteq> []"
  shows "handleSubmit True (Some uid) (Inl e) t st w =
           (Undefined, st\<lparr>isPosting := False\<rparr>,
            w\<lparr>consoleErrors := consoleErrors w @ [''Error creating post:'']\<rparr>)"
  using assms by (simp add: handleSubmit_def addDoc_def)

section \<open>The snapshot callback\<close>

text \<open>
  The snapshot callback of \<open>usePosts\<close> keeps the documents in the order in which
  the query delivers them, one post for each, under the document's id.
\<close>

lemma fetchedPosts_order: "map id' (fetchedPosts docs) = map fst docs"
  by (induction docs) (auto simp: fetchedPosts_def fetchedPost_def)

end
